theory Spec2Isabelle
  imports Main
begin

section \<open>Platform: strings, numbers and thrown values\<close>

text \<open>
  The token service is TypeScript on Node. Three pieces of the platform show in the
  behaviour the specification talks about: \<^verbatim>\<open>String.prototype.startsWith\<close> and
  \<^verbatim>\<open>String.prototype.includes\<close> (both case sensitive), \<^verbatim>\<open>parseInt(s, 10)\<close>, and the
  classes of thrown values that the \<^verbatim>\<open>catch\<close> blocks tell apart with \<^verbatim>\<open>instanceof\<close>.
\<close>

fun starts_with :: "string \<Rightarrow> string \<Rightarrow> bool" where
  "starts_with s [] = True"
| "starts_with [] (p # ps) = False"
| "starts_with (c # cs) (p # ps) = (c = p \<and> starts_with cs ps)"

fun includes_str :: "string \<Rightarrow> string \<Rightarrow> bool" where
  "includes_str [] sub = (sub = [])"
| "includes_str (c # cs) sub = (starts_with (c # cs) sub \<or> includes_str cs sub)"

definition is_digit :: "char \<Rightarrow> bool" where
  "is_digit c = (48 \<le> (of_char c :: nat) \<and> (of_char c :: nat) \<le> 57)"

definition is_space :: "char \<Rightarrow> bool" where
  "is_space c = ((of_char c :: nat) = 32 \<or> (9 \<le> (of_char c :: nat) \<and> (of_char c :: nat) \<le> 13))"

definition digits_value :: "string \<Rightarrow> nat" where
  "digits_value ds = foldl (\<lambda>n c. 10 * n + ((of_char c :: nat) - 48)) 0 ds"

text \<open>
  \<^verbatim>\<open>parseInt(s, 10)\<close>: leading white space is skipped, one sign is read, then the longest
  run of decimal digits; with no digit the result is \<^verbatim>\<open>NaN\<close>, here \<open>None\<close>.
\<close>

definition parseInt :: "string \<Rightarrow> int option" where
  "parseInt s =
     (let t = dropWhile is_space s;
          neg = (t \<noteq> [] \<and> hd t = CHR ''-'');
          u = (if t \<noteq> [] \<and> (hd t = CHR ''-'' \<or> hd t = CHR ''+'') then tl t else t);
          ds = takeWhile is_digit u
      in if ds = [] then None
         else Some ((if neg then - 1 else 1) * int (digits_value ds)))"

text \<open>
  Thrown values. \<^verbatim>\<open>TokenExpiredError\<close> and \<^verbatim>\<open>JsonWebTokenError\<close> are the two classes of the
  \<^verbatim>\<open>jsonwebtoken\<close> package (the first extends the second, both extend \<^verbatim>\<open>Error\<close>);
  \<open>Error\<close> is a plain \<^verbatim>\<open>new Error(message)\<close>; \<open>NotAnError\<close> stands for a thrown value
  that is no \<^verbatim>\<open>Error\<close> object at all.
\<close>

datatype js_error =
    TokenExpiredError string
  | JsonWebTokenError string
  | Error string
  | NotAnError

fun instanceof_Error :: "js_error \<Rightarrow> bool" where
  "instanceof_Error NotAnError = False"
| "instanceof_Error e = True"

fun message :: "js_error \<Rightarrow> string" where
  "message (TokenExpiredError m) = m"
| "message (JsonWebTokenError m) = m"
| "message (Error m) = m"
| "message NotAnError = []"


section \<open>The jsonwebtoken package, abstractly\<close>

text \<open>
  A signed token is not modelled as text: cryptography is outside the embedding. A token
  is either a well-formed JWT, given by the secret it was signed with, its payload and
  the \<^verbatim>\<open>iat\<close> and \<^verbatim>\<open>exp\<close> claims (seconds) that \<^verbatim>\<open>jwt.sign\<close> adds, or any other string.
  HS256 is deterministic, so two tokens signed with the same secret over the same payload
  in the same second are the same token; the datatype has exactly that equality. Only
  the service holds its secrets, so a token that verifies under one of them carries a
  payload the service signed.

  The two payload shapes are the interfaces \<^verbatim>\<open>IAccessTokenPayload\<close> and
  \<^verbatim>\<open>IRefreshTokenPayload\<close> of the service; their \<^verbatim>\<open>type\<close> field is \<open>claim_type\<close>.
\<close>

datatype e_device_type = web | mobile

datatype jwt_payload =
    IAccessTokenPayload (claim_user_id: string)
  | IRefreshTokenPayload (claim_user_id: string) (claim_family_id: string)
      (claim_device_type: e_device_type)

fun claim_type :: "jwt_payload \<Rightarrow> string" where
  "claim_type (IAccessTokenPayload uid) = ''access''"
| "claim_type (IRefreshTokenPayload uid fam dev) = ''refresh''"

datatype token =
    Jwt (signed_with: string) (payload: jwt_payload) (iat: int) (exp_claim: int)
  | Malformed string

text \<open>
  The time span grammar of the \<^verbatim>\<open>ms\<close> package that \<^verbatim>\<open>jwt.sign\<close> applies to a string
  \<^verbatim>\<open>expiresIn\<close>, in milliseconds, for spans written as an optional minus sign, decimal
  digits and at most one unit letter; \<open>None\<close> is \<^verbatim>\<open>undefined\<close>. Fractions, blanks before
  the unit, upper case and the long unit names of the package are not covered: the model
  reads them as \<open>None\<close>, so for such a configuration it has \<^verbatim>\<open>jwt.sign\<close> throw where
  the package signs. The spans of the default configuration are covered.
\<close>

definition ms_unit :: "string \<Rightarrow> int option" where
  "ms_unit u =
     (if u = [] then Some 1
      else if u = ''s'' then Some 1000
      else if u = ''m'' then Some (60 * 1000)
      else if u = ''h'' then Some (60 * 60 * 1000)
      else if u = ''d'' then Some (24 * 60 * 60 * 1000)
      else if u = ''w'' then Some (7 * 24 * 60 * 60 * 1000)
      else if u = ''y'' then Some (31557600000)
      else None)"

definition ms :: "string \<Rightarrow> int option" where
  "ms str =
     (let neg = (str \<noteq> [] \<and> hd str = CHR ''-'');
          u = (if neg then tl str else str);
          ds = takeWhile is_digit u
      in if ds = [] then None
         else (case ms_unit (dropWhile is_digit u) of
                 None \<Rightarrow> None
               | Some m \<Rightarrow> Some ((if neg then - 1 else 1) * int (digits_value ds) * m)))"

text \<open>
  \<^verbatim>\<open>jwt.sign(payload, secret, {expiresIn})\<close> at clock \<open>now\<close> (milliseconds):
  \<^verbatim>\<open>iat = floor(now / 1000)\<close>, \<^verbatim>\<open>exp = floor(iat + ms(expiresIn) / 1000)\<close>; it throws when
  the span does not parse.
\<close>

definition jwt_sign :: "jwt_payload \<Rightarrow> string \<Rightarrow> string \<Rightarrow> int \<Rightarrow> js_error + token" where
  "jwt_sign pl secret expiresIn now =
     (case ms expiresIn of
        None \<Rightarrow> Inl (Error ''expiresIn should be a number of seconds or string representing a timespan'')
      | Some span \<Rightarrow>
          Inr (Jwt secret pl (now div 1000) (((now div 1000) * 1000 + span) div 1000)))"

text \<open>
  \<^verbatim>\<open>jwt.verify(token, secret)\<close> at clock \<open>now\<close>: the signature is checked first, then
  the expiry (\<^verbatim>\<open>clockTimestamp >= exp\<close> is expired).
\<close>

definition jwt_verify :: "token \<Rightarrow> string \<Rightarrow> int \<Rightarrow> js_error + jwt_payload" where
  "jwt_verify tok secret now =
     (case tok of
        Malformed txt \<Rightarrow> Inl (JsonWebTokenError ''jwt malformed'')
      | Jwt k pl issued expires \<Rightarrow>
          if k \<noteq> secret then Inl (JsonWebTokenError ''invalid signature'')
          else if expires \<le> now div 1000 then Inl (TokenExpiredError ''jwt expired'')
          else Inr pl)"


section \<open>Configuration (config/environment.ts)\<close>

record environment =
  JWT_SECRET :: string
  JWT_REFRESH_SECRET :: string
  JWT_ACCESS_EXPIRY :: string
  JWT_REFRESH_EXPIRY_WEB :: string
  JWT_REFRESH_EXPIRY_MOBILE :: string

definition default_env :: environment where
  "default_env =
     \<lparr> JWT_SECRET = ''mi-clave-secreta-super-segura-de-al-menos-32-caracteres-para-desarrollo'',
       JWT_REFRESH_SECRET = ''mi-refresh-secret-super-segura-de-al-menos-32-caracteres-para-desarrollo'',
       JWT_ACCESS_EXPIRY = ''15m'',
       JWT_REFRESH_EXPIRY_WEB = ''7d'',
       JWT_REFRESH_EXPIRY_MOBILE = ''90d'' \<rparr>"


section \<open>Token Store (models/refresh\_token.model.ts)\<close>

text \<open>
  \<^verbatim>\<open>hash_token\<close> is SHA-256 in hexadecimal; the model takes it as collision free, a
  constructor over the token.
\<close>

datatype sha256_hex = Sha256 token

definition hash_token :: "token \<Rightarrow> sha256_hex" where
  "hash_token t = Sha256 t"

record IRefreshToken =
  user_id :: string
  token_hash :: sha256_hex
  family_id :: string
  device_type :: e_device_type
  expires_at :: int
  created_at :: int
  is_revoked :: bool

text \<open>
  The collection, in insertion order. The service looks a record up by its hash and
  updates the first record with a hash, or every record a filter matches; each update
  sets \<^verbatim>\<open>{ is_revoked: true }\<close> and nothing else. \<open>modifiedCount\<close> counts the records an
  update changed. Calls to the store are taken to succeed, the insertion apart, which the
  unique index or the schema can reject. The expiry of documents by the TTL index (and
  \<^verbatim>\<open>cleanup_expired\<close>, which nothing calls) removes records and is not modelled.
\<close>

type_synonym token_store = "IRefreshToken list"

definition findOne :: "sha256_hex \<Rightarrow> token_store \<Rightarrow> IRefreshToken option" where
  "findOne h s = find (\<lambda>d. token_hash d = h) s"

fun updateOne :: "sha256_hex \<Rightarrow> token_store \<Rightarrow> token_store" where
  "updateOne h [] = []"
| "updateOne h (d # ds) =
     (if token_hash d = h then d\<lparr>is_revoked := True\<rparr> # ds else d # updateOne h ds)"

definition updateMany :: "(IRefreshToken \<Rightarrow> bool) \<Rightarrow> token_store \<Rightarrow> token_store" where
  "updateMany filt s = map (\<lambda>d. if filt d then d\<lparr>is_revoked := True\<rparr> else d) s"

definition modifiedCount :: "token_store \<Rightarrow> token_store \<Rightarrow> nat" where
  "modifiedCount s s' = length (filter (\<lambda>(d, d'). d \<noteq> d') (zip s s'))"

text \<open>
  \<^verbatim>\<open>RefreshToken.create\<close>: the schema is validated first: an invalid \<^verbatim>\<open>Date\<close> (\<open>None\<close>)
  fails the cast, and the required strings \<^verbatim>\<open>user_id\<close> and \<^verbatim>\<open>family_id\<close> must not be empty
  (the hash never is). Then \<^verbatim>\<open>token_hash\<close> has a unique index, so a second document with
  a hash already in the collection is rejected. \<^verbatim>\<open>created_at\<close> defaults to the clock.
\<close>

definition create :: "int \<Rightarrow> string \<Rightarrow> sha256_hex \<Rightarrow> string \<Rightarrow> e_device_type \<Rightarrow> int option
    \<Rightarrow> token_store \<Rightarrow> js_error + token_store" where
  "create now uid h fam dev expires s =
     (case expires of
        None \<Rightarrow> Inl (Error ''RefreshToken validation failed: expires_at'')
      | Some at \<Rightarrow>
          if uid = [] \<or> fam = []
          then Inl (Error ''RefreshToken validation failed: required'')
          else if list_ex (\<lambda>d. token_hash d = h) s
          then Inl (Error ''E11000 duplicate key error'')
          else Inr (s @ [\<lparr> user_id = uid, token_hash = h, family_id = fam, device_type = dev,
                           expires_at = at, created_at = now, is_revoked = False \<rparr>]))"


section \<open>Token Issuer (services/jwt.service.ts)\<close>

record ITokenPair =
  access_token :: token
  refresh_token :: token
  access_expires_in :: string
  refresh_expires_in :: string

record ITokenRotationResult =
  success :: bool
  tokens :: "ITokenPair option"
  error :: "string option"
  should_logout :: "bool option"

definition multipliers :: "string \<Rightarrow> int option" where
  "multipliers unit_key =
     (if unit_key = ''s'' then Some 1000
      else if unit_key = ''m'' then Some (60 * 1000)
      else if unit_key = ''h'' then Some (60 * 60 * 1000)
      else if unit_key = ''d'' then Some (24 * 60 * 60 * 1000)
      else None)"

text \<open>
  \<^verbatim>\<open>calculate_expiry\<close>: the unit is \<^verbatim>\<open>expiry_string.slice(-1)\<close>, the value is
  \<^verbatim>\<open>parseInt(expiry_string.slice(0, -1), 10)\<close>; an unknown unit throws; the result is the
  \<^verbatim>\<open>Date\<close> at \<^verbatim>\<open>now + value * multiplier\<close>, invalid (\<open>None\<close>) when the value is \<^verbatim>\<open>NaN\<close>
  or the time is outside the range of a \<^verbatim>\<open>Date\<close>, 8640000000000000 milliseconds either
  side of the epoch.
\<close>

definition valid_date :: "int \<Rightarrow> int option" where
  "valid_date t = (if \<bar>t\<bar> \<le> 8640000000000000 then Some t else None)"

definition calculate_expiry :: "int \<Rightarrow> string \<Rightarrow> js_error + int option" where
  "calculate_expiry now expiry_string =
     (let unit_key = (if expiry_string = [] then [] else [last expiry_string]);
          parsed = parseInt (butlast expiry_string)
      in case multipliers unit_key of
           None \<Rightarrow> Inl (Error (''Invalid expiry format: '' @ expiry_string))
         | Some multiplier \<Rightarrow>
             Inr (case parsed of None \<Rightarrow> None
                  | Some v \<Rightarrow> valid_date (now + v * multiplier)))"

text \<open>
  The \<^verbatim>\<open>try\<close> block of \<^verbatim>\<open>generate_token_pair\<close>. \<open>now\<close> is the clock of the call (read
  once), \<open>uuidv4\<close> the identifier \<^verbatim>\<open>uuidv4()\<close> would return. \<^verbatim>\<open>family_id || uuidv4()\<close>
  takes the fresh identifier also for an empty string.
\<close>

definition generate_token_pair_try :: "environment \<Rightarrow> int \<Rightarrow> string \<Rightarrow> string
    \<Rightarrow> e_device_type option \<Rightarrow> string option \<Rightarrow> token_store
    \<Rightarrow> js_error + (ITokenPair \<times> token_store)" where
  "generate_token_pair_try env now uuidv4 uid dev_arg fam_arg s =
     (let dev = (case dev_arg of None \<Rightarrow> web | Some d \<Rightarrow> d);
          token_family_id = (case fam_arg of None \<Rightarrow> uuidv4
                             | Some f \<Rightarrow> if f = [] then uuidv4 else f);
          refresh_expiry = (if dev = mobile then JWT_REFRESH_EXPIRY_MOBILE env
                            else JWT_REFRESH_EXPIRY_WEB env)
      in case jwt_sign (IAccessTokenPayload uid) (JWT_SECRET env) (JWT_ACCESS_EXPIRY env) now of
           Inl e \<Rightarrow> Inl e
         | Inr access \<Rightarrow>
            (case jwt_sign (IRefreshTokenPayload uid token_family_id dev)
                    (JWT_REFRESH_SECRET env) refresh_expiry now of
               Inl e \<Rightarrow> Inl e
             | Inr refresh \<Rightarrow>
                (case calculate_expiry now refresh_expiry of
                   Inl e \<Rightarrow> Inl e
                 | Inr expires \<Rightarrow>
                    (case create now uid (hash_token refresh) token_family_id dev expires s of
                       Inl e \<Rightarrow> Inl e
                     | Inr s' \<Rightarrow>
                         Inr (\<lparr> access_token = access, refresh_token = refresh,
                                access_expires_in = JWT_ACCESS_EXPIRY env,
                                refresh_expires_in = refresh_expiry \<rparr>, s')))))"

text \<open>The \<^verbatim>\<open>catch\<close> block rethrows every failure under one message.\<close>

definition generate_token_pair :: "environment \<Rightarrow> int \<Rightarrow> string \<Rightarrow> string
    \<Rightarrow> e_device_type option \<Rightarrow> string option \<Rightarrow> token_store
    \<Rightarrow> js_error + (ITokenPair \<times> token_store)" where
  "generate_token_pair env now uuidv4 uid dev_arg fam_arg s =
     (case generate_token_pair_try env now uuidv4 uid dev_arg fam_arg s of
        Inl e \<Rightarrow> Inl (Error ''Failed to generate authentication tokens'')
      | Inr r \<Rightarrow> Inr r)"

definition verify_access_token :: "environment \<Rightarrow> int \<Rightarrow> token \<Rightarrow> js_error + jwt_payload" where
  "verify_access_token env now tok =
     (case (case jwt_verify tok (JWT_SECRET env) now of
              Inl e \<Rightarrow> Inl e
            | Inr decoded \<Rightarrow>
                if claim_type decoded \<noteq> ''access'' then Inl (Error ''Invalid token type'')
                else Inr decoded) of
        Inl (TokenExpiredError m) \<Rightarrow> Inl (Error ''Access token expired'')
      | Inl (JsonWebTokenError m) \<Rightarrow> Inl (Error ''Invalid access token'')
      | Inl e \<Rightarrow> Inl e
      | Inr decoded \<Rightarrow> Inr decoded)"

definition verify_refresh_token :: "environment \<Rightarrow> int \<Rightarrow> token \<Rightarrow> js_error + jwt_payload" where
  "verify_refresh_token env now tok =
     (case (case jwt_verify tok (JWT_REFRESH_SECRET env) now of
              Inl e \<Rightarrow> Inl e
            | Inr decoded \<Rightarrow>
                if claim_type decoded \<noteq> ''refresh'' then Inl (Error ''Invalid token type'')
                else Inr decoded) of
        Inl (TokenExpiredError m) \<Rightarrow> Inl (Error ''Refresh token expired'')
      | Inl (JsonWebTokenError m) \<Rightarrow> Inl (Error ''Invalid refresh token'')
      | Inl e \<Rightarrow> Inl e
      | Inr decoded \<Rightarrow> Inr decoded)"


section \<open>Rotation Protocol (JWTService.rotate\_refresh\_token)\<close>

definition failure :: "string \<Rightarrow> bool \<Rightarrow> ITokenRotationResult" where
  "failure msg logout =
     \<lparr> success = False, tokens = None, error = Some msg, should_logout = Some logout \<rparr>"

text \<open>The \<^verbatim>\<open>catch\<close> block of \<^verbatim>\<open>rotate_refresh_token\<close>.\<close>

definition rotate_catch :: "js_error \<Rightarrow> ITokenRotationResult" where
  "rotate_catch e =
     (if instanceof_Error e \<and>
         (includes_str (message e) ''expired'' \<or> includes_str (message e) ''invalid'')
      then failure (message e) False
      else failure ''Failed to refresh token'' False)"

text \<open>
  The rotation itself, against the store \<open>s\<close>, returning the result and the store it
  leaves. A failure of \<^verbatim>\<open>generate_token_pair\<close> in step 6 is caught after step 5 has
  written, so the store keeps the revocation.
\<close>

definition rotate_refresh_token :: "environment \<Rightarrow> int \<Rightarrow> string \<Rightarrow> token \<Rightarrow> token_store
    \<Rightarrow> ITokenRotationResult \<times> token_store" where
  "rotate_refresh_token env now uuidv4 tok s =
     (case verify_refresh_token env now tok of
        Inl e \<Rightarrow> (rotate_catch e, s)
      | Inr decoded \<Rightarrow>
          (case findOne (hash_token tok) s of
             None \<Rightarrow>
               (failure ''Token reuse detected. Please login again.'' True,
                updateMany (\<lambda>d. family_id d = claim_family_id decoded) s)
           | Some stored_token \<Rightarrow>
               if is_revoked stored_token then
                 (failure ''Token reuse detected. Please login again.'' True,
                  updateMany (\<lambda>d. family_id d = claim_family_id decoded) s)
               else if expires_at stored_token < now then
                 (failure ''Refresh token expired'' False, updateOne (hash_token tok) s)
               else
                 (case generate_token_pair env now uuidv4 (claim_user_id decoded)
                         (Some (claim_device_type decoded)) (Some (claim_family_id decoded))
                         (updateOne (hash_token tok) s) of
                    Inl e \<Rightarrow> (rotate_catch e, updateOne (hash_token tok) s)
                  | Inr (new_tokens, s') \<Rightarrow>
                      (\<lparr> success = True, tokens = Some new_tokens, error = None,
                         should_logout = None \<rparr>, s'))))"

text \<open>The revocation entry points of the service and the statics of the model.\<close>

definition revoke_refresh_token :: "token \<Rightarrow> token_store \<Rightarrow> bool \<times> token_store" where
  "revoke_refresh_token tok s =
     (0 < modifiedCount s (updateOne (hash_token tok) s), updateOne (hash_token tok) s)"

definition revoke_all_user_tokens :: "string \<Rightarrow> token_store \<Rightarrow> nat \<times> token_store" where
  "revoke_all_user_tokens uid s =
     (let s' = updateMany (\<lambda>d. user_id d = uid \<and> is_revoked d = False) s
      in (modifiedCount s s', s'))"

definition revoke_token_family :: "string \<Rightarrow> token_store \<Rightarrow> nat \<times> token_store" where
  "revoke_token_family fam s =
     (let s' = updateMany (\<lambda>d. family_id d = fam \<and> is_revoked d = False) s
      in (modifiedCount s s', s'))"

definition revoke_family :: "string \<Rightarrow> token_store \<Rightarrow> token_store" where
  "revoke_family fam s = updateMany (\<lambda>d. family_id d = fam) s"

definition revoke_user_tokens :: "string \<Rightarrow> token_store \<Rightarrow> token_store" where
  "revoke_user_tokens uid s = updateMany (\<lambda>d. user_id d = uid) s"

text \<open>
  The condition of step 3 of the protocol: the token verified, and its record is absent
  or already revoked.
\<close>

definition reuse_detected :: "environment \<Rightarrow> int \<Rightarrow> token \<Rightarrow> token_store \<Rightarrow> bool" where
  "reuse_detected env now tok s =
     (case verify_refresh_token env now tok of
        Inl e \<Rightarrow> False
      | Inr decoded \<Rightarrow>
          (case findOne (hash_token tok) s of None \<Rightarrow> True | Some d \<Rightarrow> is_revoked d))"

text \<open>
  The same token presented again and again: each call has its own clock and identifier
  and runs against the store the call before left.
\<close>

fun rotate_again :: "environment \<Rightarrow> token \<Rightarrow> (int \<times> string) list \<Rightarrow> token_store
    \<Rightarrow> ITokenRotationResult list" where
  "rotate_again env tok [] s = []"
| "rotate_again env tok (c # calls) s =
     fst (rotate_refresh_token env (fst c) (snd c) tok s)
       # rotate_again env tok calls (snd (rotate_refresh_token env (fst c) (snd c) tok s))"


section \<open>Refresh Coordinator (RefreshQueueService.add\_refresh\_job)\<close>







section \<open>Auth Gate (middleware/auth.middleware.ts, authenticate\_token)\<close>

text \<open>
  The repository holds three revisions of the middleware. The one modelled reads the
  cookie \<^verbatim>\<open>access_token\<close>, the cookie the controller sets, and verifies with the token
  service. A request carries its parsed cookies (or none) and its \<^verbatim>\<open>Authorization\<close>
  header: \<open>Bearer t\<close> is the text \<^verbatim>\<open>"Bearer "\<close> followed by the token, \<open>Other_header\<close>
  any text that does not start so. The empty string, \<open>Malformed []\<close>, is falsy.
  The user and profile lookups are collaborators, given as functions.
\<close>

datatype authorization_header = Bearer token | Other_header string

record request =
  cookies :: "(string \<rightharpoonup> token) option"
  authorization :: "authorization_header option"

record IUser =
  user_key :: string
  email :: "string option"
  roles :: "string list"

record 'p request_user =
  req_id :: string
  req_email :: "string option"
  req_roles :: "string list"
  player_profile :: "'p option"

datatype 'p gate_result =
    Responded nat string string
  | Next "'p request_user"

definition a_acute :: string where "a_acute = [CHR 0xC3, CHR 0xA1]"
definition o_acute :: string where "o_acute = [CHR 0xC3, CHR 0xB3]"

definition token_of_request :: "request \<Rightarrow> token option" where
  "token_of_request req =
     (case (case cookies req of None \<Rightarrow> None | Some cs \<Rightarrow> cs ''access_token'') of
        Some c \<Rightarrow>
          if c \<noteq> Malformed [] then Some c
          else (case authorization req of
                  Some (Bearer t) \<Rightarrow> Some t
                | _ \<Rightarrow> None)
      | None \<Rightarrow>
          (case authorization req of
             Some (Bearer t) \<Rightarrow> Some t
           | _ \<Rightarrow> None))"

definition authenticate_catch :: "js_error \<Rightarrow> 'p gate_result" where
  "authenticate_catch e =
     (if instanceof_Error e then
        (if includes_str (message e) ''expired'' then
           Responded 401 ''Token expirado''
             (''El token de acceso ha expirado. Refresc'' @ a_acute @ '' tu sesi'' @ o_acute @ ''n.'')
         else if includes_str (message e) ''invalid'' then
           Responded 401 (''Token inv'' @ a_acute @ ''lido'')
             (''El token de acceso no es v'' @ a_acute @ ''lido'')
         else
           Responded 401 (''Error de autenticaci'' @ o_acute @ ''n'')
             (if message e = [] then ''Error desconocido'' else message e))
      else
        Responded 500 (''Error de autenticaci'' @ o_acute @ ''n'') ''Error interno del servidor'')"

definition authenticate_token :: "environment \<Rightarrow> int \<Rightarrow> (string \<Rightarrow> IUser option)
    \<Rightarrow> (string \<Rightarrow> 'p option) \<Rightarrow> request \<Rightarrow> 'p gate_result" where
  "authenticate_token env now findById get_player_profile_by_user_id req =
     (case token_of_request req of
        None \<Rightarrow>
          Responded 401 ''Token de acceso requerido''
            (''Debes incluir un token de autorizaci'' @ o_acute @ ''n (cookie o header)'')
      | Some tok \<Rightarrow>
          if tok = Malformed [] then
            Responded 401 ''Token de acceso requerido''
              (''Debes incluir un token de autorizaci'' @ o_acute @ ''n (cookie o header)'')
          else
            (case verify_access_token env now tok of
               Inl e \<Rightarrow> authenticate_catch e
             | Inr decoded_token \<Rightarrow>
                 (case findById (claim_user_id decoded_token) of
                    None \<Rightarrow>
                      Responded 401 ''Usuario no encontrado''
                        ''El usuario no existe en nuestra base de datos''
                  | Some user \<Rightarrow>
                      Next \<lparr> req_id = user_key user,
                             req_email = (case email user of None \<Rightarrow> None
                                          | Some e \<Rightarrow> if e = [] then None else Some e),
                             req_roles = roles user,
                             player_profile = get_player_profile_by_user_id (user_key user) \<rparr>)))"


section \<open>Operations on the store and what they may change\<close>

text \<open>
  Every operation of the repository that writes refresh token records: issuing a pair
  (login), rotation, the three revocations of the service and the two statics of the
  model.
\<close>

datatype operation =
    Issue int string string "e_device_type option" "string option"
  | Rotate int string token
  | Logout token
  | Revoke_all_user_tokens string
  | Revoke_token_family string
  | Revoke_family string
  | Revoke_user_tokens string

fun perform :: "environment \<Rightarrow> operation \<Rightarrow> token_store \<Rightarrow> token_store" where
  "perform env (Issue now uuidv4 uid dev fam) s =
     (case generate_token_pair env now uuidv4 uid dev fam s of
        Inl e \<Rightarrow> s
      | Inr r \<Rightarrow> snd r)"
| "perform env (Rotate now uuidv4 tok) s = snd (rotate_refresh_token env now uuidv4 tok s)"
| "perform env (Logout tok) s = snd (revoke_refresh_token tok s)"
| "perform env (Revoke_all_user_tokens uid) s = snd (revoke_all_user_tokens uid s)"
| "perform env (Revoke_token_family fam) s = snd (revoke_token_family fam s)"
| "perform env (Revoke_family fam) s = revoke_family fam s"
| "perform env (Revoke_user_tokens uid) s = revoke_user_tokens uid s"

fun perform_all :: "environment \<Rightarrow> operation list \<Rightarrow> token_store \<Rightarrow> token_store" where
  "perform_all env [] s = s"
| "perform_all env (x # xs) s = perform_all env xs (perform env x s)"

text \<open>
  \<open>only_revoked d d'\<close>: the record \<open>d'\<close> is the record \<open>d\<close> except that it may have been
  revoked. \<open>records_kept s s'\<close>: every record of \<open>s\<close> is still in \<open>s'\<close>, in its place,
  changed at most so.
\<close>

definition only_revoked :: "IRefreshToken \<Rightarrow> IRefreshToken \<Rightarrow> bool" where
  "only_revoked d d' =
     (user_id d' = user_id d \<and> token_hash d' = token_hash d \<and> family_id d' = family_id d \<and>
      device_type d' = device_type d \<and> expires_at d' = expires_at d \<and>
      created_at d' = created_at d \<and> (is_revoked d \<longrightarrow> is_revoked d'))"

definition records_kept :: "token_store \<Rightarrow> token_store \<Rightarrow> bool" where
  "records_kept s s' = (length s \<le> length s' \<and> list_all2 only_revoked s (take (length s) s'))"


section \<open>Sample data\<close>

text \<open>
  A login of \<open>user-1\<close> from the web at clock 0 under the default configuration, with
  \<open>family-1\<close> as the fresh family identifier: the pair it returns and the store it
  leaves (\<open>login_issued\<close> below). \<open>sibling_token\<close> is the token of the same family
  that rotating \<open>login_token\<close> at clock 1000 issues, \<open>rotated_store\<close> the store that
  rotation leaves (\<open>login_rotated\<close> below).
\<close>

definition login_access :: token where
  "login_access = Jwt (JWT_SECRET default_env) (IAccessTokenPayload ''user-1'') 0 900"

definition login_token :: token where
  "login_token =
     Jwt (JWT_REFRESH_SECRET default_env) (IRefreshTokenPayload ''user-1'' ''family-1'' web) 0 604800"

definition login_record :: IRefreshToken where
  "login_record =
     \<lparr> user_id = ''user-1'', token_hash = hash_token login_token, family_id = ''family-1'',
       device_type = web, expires_at = 604800000, created_at = 0, is_revoked = False \<rparr>"

definition login_store :: token_store where
  "login_store = [login_record]"

definition sibling_token :: token where
  "sibling_token =
     Jwt (JWT_REFRESH_SECRET default_env) (IRefreshTokenPayload ''user-1'' ''family-1'' web) 1 604801"

definition sibling_record :: IRefreshToken where
  "sibling_record =
     \<lparr> user_id = ''user-1'', token_hash = hash_token sibling_token, family_id = ''family-1'',
       device_type = web, expires_at = 604801000, created_at = 1000, is_revoked = False \<rparr>"

definition sibling_access :: token where
  "sibling_access = Jwt (JWT_SECRET default_env) (IAccessTokenPayload ''user-1'') 1 901"

definition rotated_store :: token_store where
  "rotated_store = [login_record\<lparr>is_revoked := True\<rparr>, sibling_record]"


text \<open>
  \<open>stale_store\<close>: the record of \<open>login_token\<close> with an \<open>expires_at\<close> that has passed at
  clock 1000, beside its sibling. \<open>expired_cookie_request\<close>: a request whose only
  credential is the cookie \<^verbatim>\<open>access_token\<close>, holding the access token of the login.
\<close>

definition stale_store :: token_store where
  "stale_store = [login_record\<lparr>expires_at := 500\<rparr>, sibling_record]"

definition expired_cookie_request :: request where
  "expired_cookie_request =
     \<lparr> cookies = Some [''access_token'' \<mapsto> login_access], authorization = None \<rparr>"


section \<open>Evaluation rules and basic facts\<close>

lemmas issue_defs = generate_token_pair_def generate_token_pair_try_def jwt_sign_def ms_def
  ms_unit_def is_digit_def digits_value_def calculate_expiry_def parseInt_def multipliers_def
  create_def is_space_def hash_token_def valid_date_def Let_def

lemmas rotate_defs = rotate_refresh_token_def verify_refresh_token_def jwt_verify_def findOne_def
  rotate_catch_def failure_def updateMany_def

lemmas sample_defs = login_access_def login_token_def login_record_def login_store_def
  sibling_token_def sibling_record_def sibling_access_def rotated_store_def stale_store_def

lemma env_simps:
  "JWT_ACCESS_EXPIRY default_env = ''15m''"
  "JWT_REFRESH_EXPIRY_WEB default_env = ''7d''"
  "JWT_REFRESH_EXPIRY_MOBILE default_env = ''90d''"
  by (simp_all add: default_env_def)

lemma login_issued:
  "generate_token_pair default_env 0 ''family-1'' ''user-1'' None None []
     = Inr (\<lparr> access_token = login_access, refresh_token = login_token,
              access_expires_in = ''15m'', refresh_expires_in = ''7d'' \<rparr>, login_store)"
  by (simp add: issue_defs env_simps sample_defs)

lemma login_rotated:
  "rotate_refresh_token default_env 1000 ''uuid-2'' login_token login_store
     = (\<lparr> success = True,
          tokens = Some \<lparr> access_token = sibling_access, refresh_token = sibling_token,
                          access_expires_in = ''15m'', refresh_expires_in = ''7d'' \<rparr>,
          error = None, should_logout = None \<rparr>, rotated_store)"
  by (simp add: rotate_defs issue_defs env_simps sample_defs)

lemma includes_str_nonempty: "includes_str m sub \<Longrightarrow> sub \<noteq> [] \<Longrightarrow> m \<noteq> []"
  by (cases m) auto

lemma rotate_catch_shape: "\<exists>m. m \<noteq> [] \<and> rotate_catch e = failure m False"
  by (auto simp: rotate_catch_def dest: includes_str_nonempty)

lemma verify_refresh_token_Inr:
  "verify_refresh_token env now tok = Inr decoded \<longleftrightarrow>
     (\<exists>issued expires uid fam dev.
        tok = Jwt (JWT_REFRESH_SECRET env) decoded issued expires \<and>
        decoded = IRefreshTokenPayload uid fam dev \<and> now div 1000 < expires)"
  by (cases tok; cases decoded)
     (auto simp: verify_refresh_token_def jwt_verify_def
           split: sum.splits js_error.splits if_splits jwt_payload.splits)


lemma generate_token_pair_Inl:
  "generate_token_pair env now uuidv4 uid dev fam s = Inl e \<Longrightarrow>
     e = Error ''Failed to generate authentication tokens''"
  by (auto simp: generate_token_pair_def split: sum.splits)

lemma create_Inr:
  "create now uid h fam dev expires s = Inr s' \<Longrightarrow>
     \<exists>at. expires = Some at \<and> \<not> list_ex (\<lambda>d. token_hash d = h) s \<and>
       s' = s @ [\<lparr> user_id = uid, token_hash = h, family_id = fam, device_type = dev,
                   expires_at = at, created_at = now, is_revoked = False \<rparr>]"
  by (auto simp: create_def split: option.splits if_splits)

lemma generate_token_pair_Inr:
  assumes "generate_token_pair env now uuidv4 uid dev_arg fam_arg s = Inr (pair, s')"
  shows "\<exists>d. s' = s @ [d] \<and> is_revoked d = False
            \<and> token_hash d = hash_token (refresh_token pair)
            \<and> \<not> list_ex (\<lambda>x. token_hash x = hash_token (refresh_token pair)) s"
  using assms
  by (auto simp: generate_token_pair_def generate_token_pair_try_def Let_def
           split: sum.splits dest!: create_Inr)

lemma length_updateOne: "length (updateOne h s) = length s"
  by (induction s) auto

lemma length_updateMany: "length (updateMany filt s) = length s"
  by (simp add: updateMany_def)


section \<open>Records are only ever revoked\<close>

lemma only_revoked_refl: "only_revoked d d"
  by (simp add: only_revoked_def)

lemma only_revoked_revoke: "only_revoked d (d\<lparr>is_revoked := True\<rparr>)"
  by (simp add: only_revoked_def)

lemma only_revoked_trans: "only_revoked a b \<Longrightarrow> only_revoked b c \<Longrightarrow> only_revoked a c"
  by (simp add: only_revoked_def)

lemma list_all2_updateOne: "list_all2 only_revoked s (updateOne h s)"
  by (induction s) (auto simp: only_revoked_refl only_revoked_revoke list_all2_refl)

lemma list_all2_updateMany: "list_all2 only_revoked s (updateMany filt s)"
  by (induction s) (auto simp: updateMany_def only_revoked_refl only_revoked_revoke)

lemma records_kept_refl: "records_kept s s"
  by (simp add: records_kept_def list_all2_refl only_revoked_refl)

lemma records_kept_same_length:
  "length s' = length s \<Longrightarrow> list_all2 only_revoked s s' \<Longrightarrow> records_kept s s'"
  by (simp add: records_kept_def)

lemma records_kept_append: "records_kept s (s @ extra)"
  by (simp add: records_kept_def list_all2_refl only_revoked_refl)

lemma records_kept_trans:
  assumes "records_kept a b" and "records_kept b c"
  shows "records_kept a c"
proof -
  have len: "length a \<le> length b" "length b \<le> length c"
    using assms by (simp_all add: records_kept_def)
  have ab: "\<And>i. i < length a \<Longrightarrow> only_revoked (a ! i) (b ! i)"
    using assms(1) by (auto simp: records_kept_def list_all2_conv_all_nth)
  have bc: "\<And>i. i < length b \<Longrightarrow> only_revoked (b ! i) (c ! i)"
    using assms(2) by (auto simp: records_kept_def list_all2_conv_all_nth)
  have "\<And>i. i < length a \<Longrightarrow> only_revoked (a ! i) (c ! i)"
    using ab bc len only_revoked_trans by (meson less_le_trans)
  with len show ?thesis
    by (auto simp: records_kept_def list_all2_conv_all_nth)
qed

lemma records_kept_updateOne: "records_kept s (updateOne h s)"
  by (simp add: records_kept_same_length length_updateOne list_all2_updateOne)

lemma records_kept_updateMany: "records_kept s (updateMany filt s)"
  by (simp add: records_kept_same_length length_updateMany list_all2_updateMany)

lemma records_kept_generate:
  "generate_token_pair env now uuidv4 uid dev_arg fam_arg s = Inr (pair, s') \<Longrightarrow>
     records_kept s s'"
  by (auto dest!: generate_token_pair_Inr simp: records_kept_append)

lemma records_kept_rotate: "records_kept s (snd (rotate_refresh_token env now uuidv4 tok s))"
  by (auto simp: rotate_refresh_token_def records_kept_refl records_kept_updateMany
        records_kept_updateOne split: sum.splits option.splits
        intro: records_kept_trans[OF records_kept_updateOne records_kept_generate])

lemma records_kept_perform: "records_kept s (perform env x s)"
proof (cases x)
  case (Issue now uuidv4 uid dev fam)
  then show ?thesis
    by (cases "generate_token_pair env now uuidv4 uid dev fam s")
       (auto simp: records_kept_refl dest: records_kept_generate)
next
  case (Rotate now uuidv4 tok)
  then show ?thesis by (simp add: records_kept_rotate)
next
  case (Logout tok)
  then show ?thesis by (simp add: revoke_refresh_token_def records_kept_updateOne)
next
  case (Revoke_all_user_tokens uid)
  then show ?thesis by (simp add: revoke_all_user_tokens_def Let_def records_kept_updateMany)
next
  case (Revoke_token_family fam)
  then show ?thesis by (simp add: revoke_token_family_def Let_def records_kept_updateMany)
next
  case (Revoke_family fam)
  then show ?thesis by (simp add: revoke_family_def records_kept_updateMany)
next
  case (Revoke_user_tokens uid)
  then show ?thesis by (simp add: revoke_user_tokens_def records_kept_updateMany)
qed

text \<open>
  Claim C9. Whatever sequence of operations runs (issuing, rotation with its consumption
  and its theft cascade, logout, the user-wide and family-wide revocations), from any
  store: every record of the store it started from is still there afterwards, with the
  same \<open>user_id\<close>, \<open>token_hash\<close>, \<open>family_id\<close>, \<open>device_type\<close>, \<open>expires_at\<close> and
  \<open>created_at\<close>, and a record that was revoked is still revoked. The theorem holds from
  every store, so from every reachable one.
\<close>

theorem records_only_ever_revoked: "records_kept s (perform_all env xs s)"
proof (induction xs arbitrary: s)
  case Nil
  show ?case by (simp add: records_kept_refl)
next
  case (Cons x xs)
  have "records_kept s (perform env x s)" by (rule records_kept_perform)
  moreover have "records_kept (perform env x s) (perform_all env xs (perform env x s))"
    by (rule Cons.IH)
  ultimately show ?case by (auto intro: records_kept_trans)
qed

theorem records_only_ever_revoked_witness:
  "perform_all default_env
      [Rotate 1000 ''uuid-2'' login_token, Rotate 2000 ''uuid-3'' login_token,
       Revoke_all_user_tokens ''user-1''] login_store
     = [login_record\<lparr>is_revoked := True\<rparr>, sibling_record\<lparr>is_revoked := True\<rparr>]
   \<and> only_revoked login_record (login_record\<lparr>is_revoked := True\<rparr>)
   \<and> records_kept login_store
        [login_record\<lparr>is_revoked := True\<rparr>, sibling_record\<lparr>is_revoked := True\<rparr>]"
proof -
  have run: "perform_all default_env
      [Rotate 1000 ''uuid-2'' login_token, Rotate 2000 ''uuid-3'' login_token,
       Revoke_all_user_tokens ''user-1''] login_store
     = [login_record\<lparr>is_revoked := True\<rparr>, sibling_record\<lparr>is_revoked := True\<rparr>]"
    by (simp add: rotate_defs issue_defs env_simps sample_defs revoke_all_user_tokens_def)
  have kept: "records_kept login_store (perform_all default_env
      [Rotate 1000 ''uuid-2'' login_token, Rotate 2000 ''uuid-3'' login_token,
       Revoke_all_user_tokens ''user-1''] login_store)"
    by (rule records_only_ever_revoked)
  show ?thesis
    using run kept by (simp add: only_revoked_revoke)
qed


section \<open>The rotation never throws\<close>

text \<open>
  Claim C10. \<open>rotate_refresh_token\<close> returns a result for every token, every store, every
  clock and every configuration: every throw of its body is a branch that ends in the
  \<^verbatim>\<open>catch\<close> block, and the \<^verbatim>\<open>catch\<close> block makes a failure with a non-empty message of
  whatever was thrown (\<open>rotate_catch_shape\<close>). A result that is not a success carries a
  non-empty error message and a defined \<open>should_logout\<close>, and \<open>should_logout\<close> is true
  exactly when the token verified and its record was absent or already revoked.
\<close>

theorem rotate_refresh_token_total:
  "(\<not> success (fst (rotate_refresh_token env now uuidv4 tok s)) \<longrightarrow>
      (\<exists>m. error (fst (rotate_refresh_token env now uuidv4 tok s)) = Some m \<and> m \<noteq> []) \<and>
      (\<exists>b. should_logout (fst (rotate_refresh_token env now uuidv4 tok s)) = Some b)) \<and>
   (should_logout (fst (rotate_refresh_token env now uuidv4 tok s)) = Some True
      \<longleftrightarrow> reuse_detected env now tok s)"
proof (cases "verify_refresh_token env now tok")
  case (Inl e)
  obtain m where m: "m \<noteq> []" "rotate_catch e = failure m False"
    using rotate_catch_shape by blast
  with Inl show ?thesis
    by (auto simp: rotate_refresh_token_def reuse_detected_def failure_def)
next
  case (Inr decoded)
  show ?thesis
  proof (cases "findOne (hash_token tok) s")
    case None
    with Inr show ?thesis
      by (auto simp: rotate_refresh_token_def reuse_detected_def failure_def)
  next
    case (Some d)
    obtain m where m: "m \<noteq> []"
      "rotate_catch (Error ''Failed to generate authentication tokens'') = failure m False"
      using rotate_catch_shape by blast
    with Inr Some show ?thesis
      by (auto simp: rotate_refresh_token_def reuse_detected_def failure_def
               split: sum.splits dest!: generate_token_pair_Inl)
  qed
qed

theorem rotate_refresh_token_total_witness:
  "\<not> success (fst (rotate_refresh_token default_env 2000 ''uuid-3'' login_token rotated_store))
   \<and> error (fst (rotate_refresh_token default_env 2000 ''uuid-3'' login_token rotated_store))
       = Some ''Token reuse detected. Please login again.''
   \<and> should_logout (fst (rotate_refresh_token default_env 2000 ''uuid-3'' login_token rotated_store))
       = Some True
   \<and> reuse_detected default_env 2000 login_token rotated_store"
  using rotate_refresh_token_total
          [of default_env 2000 "''uuid-3''" login_token rotated_store]
  by (simp add: rotate_defs hash_token_def sample_defs)


section \<open>Verification failures\<close>

lemma rotate_verify_failure:
  assumes "verify_refresh_token env now tok = Inl e"
  shows "rotate_refresh_token env now uuidv4 tok s = (rotate_catch e, s)"
  using assms by (simp add: rotate_refresh_token_def)

text \<open>
  When verification fails, the store is not read and not written: the store comes back
  as it was, and the result is the same against every store.
\<close>

lemma rotate_verify_failure_no_store_access:
  assumes "verify_refresh_token env now tok = Inl e"
  shows "snd (rotate_refresh_token env now uuidv4 tok s) = s"
    and "fst (rotate_refresh_token env now uuidv4 tok s)
           = fst (rotate_refresh_token env now uuidv4' tok s')"
  using assms by (simp_all add: rotate_refresh_token_def)

text \<open>
  An expired token of the service is rejected under the message of \<open>verify_refresh_token\<close>.
\<close>

lemma rotate_expired_jwt:
  assumes "expires \<le> now div 1000"
  shows "rotate_refresh_token env now uuidv4 (Jwt (JWT_REFRESH_SECRET env) pl issued expires) s
           = (failure ''Refresh token expired'' False, s)"
  using assms
  by (simp add: rotate_refresh_token_def verify_refresh_token_def jwt_verify_def rotate_catch_def)

text \<open>
  Claim C6, where the code departs from it. A token that fails the signature check makes
  \<open>verify_refresh_token\<close> throw \<^verbatim>\<open>Invalid refresh token\<close>; the \<^verbatim>\<open>catch\<close> block of the
  rotation looks for \<^verbatim>\<open>invalid\<close> in lower case, does not find it, and answers with the
  message of an internal failure. The store is untouched, as the claim says.
\<close>

theorem rotate_malformed_token_generic_failure:
  "verify_refresh_token env now (Malformed txt) = Inl (Error ''Invalid refresh token'')
   \<and> rotate_refresh_token env now uuidv4 (Malformed txt) s
       = (\<lparr> success = False, tokens = None, error = Some ''Failed to refresh token'',
            should_logout = Some False \<rparr>, s)"
  by (simp add: rotate_refresh_token_def verify_refresh_token_def jwt_verify_def
        rotate_catch_def failure_def)


section \<open>Lookups after updates\<close>

lemma updateMany_Nil: "updateMany filt [] = []"
  by (simp add: updateMany_def)

lemma updateMany_Cons:
  "updateMany filt (a # s) = (if filt a then a\<lparr>is_revoked := True\<rparr> else a) # updateMany filt s"
  by (simp add: updateMany_def)

lemma findOne_updateMany:
  "findOne h (updateMany filt s)
     = map_option (\<lambda>d. if filt d then d\<lparr>is_revoked := True\<rparr> else d) (findOne h s)"
  by (induction s) (auto simp: findOne_def updateMany_def)

lemma findOne_updateOne:
  "findOne h s = Some d \<Longrightarrow> findOne h (updateOne h s) = Some (d\<lparr>is_revoked := True\<rparr>)"
  by (induction s) (auto simp: findOne_def)

lemma findOne_append: "findOne h s = Some d \<Longrightarrow> findOne h (s @ t) = Some d"
  by (induction s) (auto simp: findOne_def)

lemma findOne_Some_updateOne:
  "findOne h s = Some d \<Longrightarrow>
     \<exists>i<length s. s ! i = d \<and> updateOne h s = s[i := d\<lparr>is_revoked := True\<rparr>]"
proof (induction s)
  case Nil
  then show ?case by (simp add: findOne_def)
next
  case (Cons a s)
  show ?case
  proof (cases "token_hash a = h")
    case True
    with Cons.prems have "a = d" by (simp add: findOne_def)
    with True show ?thesis by (intro exI[of _ 0]) simp
  next
    case False
    with Cons.prems have "findOne h s = Some d" by (simp add: findOne_def)
    then obtain i where
      i: "i < length s" "s ! i = d" "updateOne h s = s[i := d\<lparr>is_revoked := True\<rparr>]"
      using Cons.IH by blast
    with False show ?thesis by (intro exI[of _ "Suc i"]) simp
  qed
qed

lemma family_revoked_after_updateMany:
  "\<forall>d \<in> set (updateMany (\<lambda>x. family_id x = fam) s). family_id d = fam \<longrightarrow> is_revoked d"
proof (induction s)
  case Nil
  show ?case by (simp add: updateMany_Nil)
next
  case (Cons a s)
  show ?case
  proof (cases "family_id a = fam")
    case True
    have "updateMany (\<lambda>x. family_id x = fam) (a # s)
            = a\<lparr>is_revoked := True\<rparr> # updateMany (\<lambda>x. family_id x = fam) s"
      using True by (simp add: updateMany_Cons)
    then show ?thesis using Cons.IH by simp
  next
    case False
    have "updateMany (\<lambda>x. family_id x = fam) (a # s)
            = a # updateMany (\<lambda>x. family_id x = fam) s"
      using False by (simp add: updateMany_Cons)
    then show ?thesis using Cons.IH False by simp
  qed
qed


section \<open>Reuse detection revokes the family\<close>

lemma rotate_reuse:
  assumes "verify_refresh_token env now tok = Inr decoded"
      and "findOne (hash_token tok) s = None \<or>
           (\<exists>d. findOne (hash_token tok) s = Some d \<and> is_revoked d)"
  shows "rotate_refresh_token env now uuidv4 tok s
           = (failure ''Token reuse detected. Please login again.'' True,
              updateMany (\<lambda>d. family_id d = claim_family_id decoded) s)"
  using assms by (auto simp: rotate_refresh_token_def)

lemma rotate_revoked_record_fails:
  assumes "findOne (hash_token tok) s = Some d" and "is_revoked d"
  shows "\<not> success (fst (rotate_refresh_token env now uuidv4 tok s))"
proof (cases "verify_refresh_token env now tok")
  case (Inl e)
  obtain m where "rotate_catch e = failure m False" using rotate_catch_shape by blast
  with Inl show ?thesis by (simp add: rotate_refresh_token_def failure_def)
next
  case (Inr decoded)
  with assms show ?thesis by (simp add: rotate_refresh_token_def failure_def)
qed

text \<open>
  Claim C2. A token that verifies and whose record is absent or already revoked: the call
  returns the reuse failure with \<open>should_logout\<close> true; the store it leaves is the old one
  with the token's family revoked (the \<open>revoke_family\<close> of the model), so every record of
  that family is revoked; and a sibling, a token whose record was in the store under that
  family, revoked or not, expired or not, can no longer be rotated, at any clock.
\<close>

theorem reuse_revokes_family:
  assumes "verify_refresh_token env now tok = Inr decoded"
      and "findOne (hash_token tok) s = None \<or>
           (\<exists>d. findOne (hash_token tok) s = Some d \<and> is_revoked d)"
  shows "fst (rotate_refresh_token env now uuidv4 tok s)
           = \<lparr> success = False, tokens = None,
               error = Some ''Token reuse detected. Please login again.'',
               should_logout = Some True \<rparr>
       \<and> snd (rotate_refresh_token env now uuidv4 tok s)
           = revoke_family (claim_family_id decoded) s
       \<and> (\<forall>d \<in> set (snd (rotate_refresh_token env now uuidv4 tok s)).
             family_id d = claim_family_id decoded \<longrightarrow> is_revoked d)
       \<and> (\<forall>tok' d' now' uuidv4'.
             findOne (hash_token tok') s = Some d' \<and> family_id d' = claim_family_id decoded
             \<longrightarrow> \<not> success (fst (rotate_refresh_token env now' uuidv4' tok'
                                   (snd (rotate_refresh_token env now uuidv4 tok s)))))"
proof -
  let ?s' = "updateMany (\<lambda>d. family_id d = claim_family_id decoded) s"
  have run: "rotate_refresh_token env now uuidv4 tok s
               = (failure ''Token reuse detected. Please login again.'' True, ?s')"
    using assms by (rule rotate_reuse)
  have revoked: "\<forall>d \<in> set ?s'. family_id d = claim_family_id decoded \<longrightarrow> is_revoked d"
    by (rule family_revoked_after_updateMany)
  have siblings: "\<not> success (fst (rotate_refresh_token env now' uuidv4' tok' ?s'))"
    if "findOne (hash_token tok') s = Some d'" "family_id d' = claim_family_id decoded"
    for tok' d' now' uuidv4'
  proof -
    have "findOne (hash_token tok') ?s' = Some (d'\<lparr>is_revoked := True\<rparr>)"
      using that by (simp add: findOne_updateMany)
    then show ?thesis by (rule rotate_revoked_record_fails) simp
  qed
  have snd_run: "snd (rotate_refresh_token env now uuidv4 tok s) = ?s'"
    by (simp add: run)
  have fst_run: "fst (rotate_refresh_token env now uuidv4 tok s)
           = \<lparr> success = False, tokens = None,
               error = Some ''Token reuse detected. Please login again.'',
               should_logout = Some True \<rparr>"
    by (simp add: run failure_def)
  show ?thesis
    unfolding snd_run fst_run revoke_family_def
    using revoked siblings by blast
qed

theorem reuse_revokes_family_witness:
  "verify_refresh_token default_env 2000 login_token
     = Inr (IRefreshTokenPayload ''user-1'' ''family-1'' web)
   \<and> findOne (hash_token login_token) rotated_store = Some (login_record\<lparr>is_revoked := True\<rparr>)
   \<and> is_revoked sibling_record = False
   \<and> rotate_refresh_token default_env 2000 ''uuid-3'' login_token rotated_store
       = (\<lparr> success = False, tokens = None,
            error = Some ''Token reuse detected. Please login again.'',
            should_logout = Some True \<rparr>,
          [login_record\<lparr>is_revoked := True\<rparr>, sibling_record\<lparr>is_revoked := True\<rparr>])
   \<and> \<not> success (fst (rotate_refresh_token default_env 3000 ''uuid-4'' sibling_token
                        (snd (rotate_refresh_token default_env 2000 ''uuid-3'' login_token
                                rotated_store))))"
proof -
  have v: "verify_refresh_token default_env 2000 login_token
             = Inr (IRefreshTokenPayload ''user-1'' ''family-1'' web)"
    by (simp add: verify_refresh_token_def jwt_verify_def login_token_def)
  have f: "findOne (hash_token login_token) rotated_store
             = Some (login_record\<lparr>is_revoked := True\<rparr>)"
    by (simp add: findOne_def rotated_store_def login_record_def)
  have f': "findOne (hash_token login_token) rotated_store = None \<or>
            (\<exists>d. findOne (hash_token login_token) rotated_store = Some d \<and> is_revoked d)"
    by (simp add: f)
  have sib: "findOne (hash_token sibling_token) rotated_store = Some sibling_record"
    by (simp add: findOne_def sample_defs hash_token_def)
  have fam: "family_id sibling_record
               = claim_family_id (IRefreshTokenPayload ''user-1'' ''family-1'' web)"
    by (simp add: sibling_record_def)
  note c2 = reuse_revokes_family [OF v f', of "''uuid-3''"]
  have st: "revoke_family ''family-1'' rotated_store
              = [login_record\<lparr>is_revoked := True\<rparr>, sibling_record\<lparr>is_revoked := True\<rparr>]"
    by (simp add: revoke_family_def updateMany_def sample_defs)
  have r: "rotate_refresh_token default_env 2000 ''uuid-3'' login_token rotated_store
       = (\<lparr> success = False, tokens = None,
            error = Some ''Token reuse detected. Please login again.'',
            should_logout = Some True \<rparr>,
          [login_record\<lparr>is_revoked := True\<rparr>, sibling_record\<lparr>is_revoked := True\<rparr>])"
    using c2 st by (simp add: prod_eq_iff)
  have dead: "\<not> success (fst (rotate_refresh_token default_env 3000 ''uuid-4'' sibling_token
                        (snd (rotate_refresh_token default_env 2000 ''uuid-3'' login_token
                                rotated_store))))"
    using c2 sib fam by blast
  show ?thesis
    using v f r dead by (simp add: sibling_record_def)
qed


section \<open>An expired record is revoked alone\<close>

text \<open>
  Claim C5. A token that verifies, whose record is present and not revoked but past its
  \<open>expires_at\<close>: the call returns the failure \<^verbatim>\<open>Refresh token expired\<close> with
  \<open>should_logout\<close> false, and the store it leaves is the old one with that one record
  revoked; every other record, its siblings included, is what it was.
\<close>

theorem expired_record_revokes_only_itself:
  assumes "verify_refresh_token env now tok = Inr decoded"
      and "findOne (hash_token tok) s = Some d"
      and "is_revoked d = False"
      and "expires_at d < now"
  shows "fst (rotate_refresh_token env now uuidv4 tok s)
           = \<lparr> success = False, tokens = None, error = Some ''Refresh token expired'',
               should_logout = Some False \<rparr>
       \<and> (\<exists>i<length s. s ! i = d
             \<and> snd (rotate_refresh_token env now uuidv4 tok s) = s[i := d\<lparr>is_revoked := True\<rparr>]
             \<and> (\<forall>j<length s. j \<noteq> i \<longrightarrow>
                   snd (rotate_refresh_token env now uuidv4 tok s) ! j = s ! j))"
proof -
  have run: "rotate_refresh_token env now uuidv4 tok s
          = (failure ''Refresh token expired'' False, updateOne (hash_token tok) s)"
    using assms by (simp add: rotate_refresh_token_def)
  obtain i where i: "i < length s" "s ! i = d"
      "updateOne (hash_token tok) s = s[i := d\<lparr>is_revoked := True\<rparr>]"
    using findOne_Some_updateOne[OF assms(2)] by blast
  have "snd (rotate_refresh_token env now uuidv4 tok s) = s[i := d\<lparr>is_revoked := True\<rparr>]"
    by (simp add: run i(3))
  moreover have "\<forall>j<length s. j \<noteq> i \<longrightarrow> (s[i := d\<lparr>is_revoked := True\<rparr>]) ! j = s ! j"
    by simp
  ultimately show ?thesis
    using i(1,2) by (auto simp: run failure_def)
qed

theorem expired_record_revokes_only_itself_witness:
  "verify_refresh_token default_env 1000 login_token
     = Inr (IRefreshTokenPayload ''user-1'' ''family-1'' web)
   \<and> findOne (hash_token login_token) stale_store = Some (login_record\<lparr>expires_at := 500\<rparr>)
   \<and> fst (rotate_refresh_token default_env 1000 ''uuid-2'' login_token stale_store)
       = \<lparr> success = False, tokens = None, error = Some ''Refresh token expired'',
           should_logout = Some False \<rparr>
   \<and> snd (rotate_refresh_token default_env 1000 ''uuid-2'' login_token stale_store)
       = [login_record\<lparr>expires_at := 500, is_revoked := True\<rparr>, sibling_record]"
proof -
  have v: "verify_refresh_token default_env 1000 login_token
             = Inr (IRefreshTokenPayload ''user-1'' ''family-1'' web)"
    by (simp add: verify_refresh_token_def jwt_verify_def login_token_def)
  have f: "findOne (hash_token login_token) stale_store = Some (login_record\<lparr>expires_at := 500\<rparr>)"
    by (simp add: findOne_def stale_store_def login_record_def)
  have live: "is_revoked (login_record\<lparr>expires_at := 500\<rparr>) = False"
    by (simp add: login_record_def)
  have past: "expires_at (login_record\<lparr>expires_at := 500\<rparr>) < 1000"
    by simp
  note c5 = expired_record_revokes_only_itself [OF v f live past, of "''uuid-2''"]
  have st: "snd (rotate_refresh_token default_env 1000 ''uuid-2'' login_token stale_store)
       = [login_record\<lparr>expires_at := 500, is_revoked := True\<rparr>, sibling_record]"
    by (simp add: rotate_defs hash_token_def sample_defs)
  show ?thesis
    using c5 v f st by simp
qed


section \<open>A token is redeemed at most once\<close>

lemma rotate_success_consumes:
  assumes "success (fst (rotate_refresh_token env now uuidv4 tok s))"
  shows "(\<exists>decoded. verify_refresh_token env now tok = Inr decoded) \<and>
         (\<exists>d. findOne (hash_token tok) (snd (rotate_refresh_token env now uuidv4 tok s)) = Some d
              \<and> is_revoked d)"
proof (cases "verify_refresh_token env now tok")
  case (Inl e)
  obtain m where "rotate_catch e = failure m False" using rotate_catch_shape by blast
  with Inl assms show ?thesis by (simp add: rotate_refresh_token_def failure_def)
next
  case (Inr decoded)
  show ?thesis
  proof (cases "findOne (hash_token tok) s")
    case None
    with Inr assms show ?thesis by (simp add: rotate_refresh_token_def failure_def)
  next
    case (Some d)
    let ?s1 = "updateOne (hash_token tok) s"
    have live: "is_revoked d = False" "\<not> expires_at d < now"
      using assms Inr Some by (auto simp: rotate_refresh_token_def failure_def split: if_splits)
    show ?thesis
    proof (cases "generate_token_pair env now uuidv4 (claim_user_id decoded)
                    (Some (claim_device_type decoded)) (Some (claim_family_id decoded)) ?s1")
      case (Inl e)
      obtain m where "rotate_catch e = failure m False" using rotate_catch_shape by blast
      with Inl Inr Some live assms show ?thesis
        by (simp add: rotate_refresh_token_def failure_def)
    next
      case gen: (Inr r)
      obtain pair s2 where r: "r = (pair, s2)" by (cases r)
      from gen r obtain x where s2: "s2 = ?s1 @ [x]"
        using generate_token_pair_Inr by blast
      have run: "snd (rotate_refresh_token env now uuidv4 tok s) = s2"
        using Inr Some live gen r by (simp add: rotate_refresh_token_def)
      have "findOne (hash_token tok) s2 = Some (d\<lparr>is_revoked := True\<rparr>)"
        unfolding s2 using Some by (intro findOne_append findOne_updateOne)
      with Inr run show ?thesis by simp
    qed
  qed
qed

lemma verify_refresh_token_later:
  assumes "verify_refresh_token env now tok = Inr decoded"
      and "now' div 1000 < exp_claim tok"
  shows "verify_refresh_token env now' tok = Inr decoded"
proof -
  from assms(1) obtain issued expires uid fam dev where
    t: "tok = Jwt (JWT_REFRESH_SECRET env) decoded issued expires"
       "decoded = IRefreshTokenPayload uid fam dev"
    unfolding verify_refresh_token_Inr by blast
  with assms(2) show ?thesis
    unfolding verify_refresh_token_Inr by simp
qed

lemma rotate_again_consumed:
  assumes "verify_refresh_token env now tok = Inr decoded"
      and "\<exists>d. findOne (hash_token tok) s = Some d \<and> is_revoked d"
      and "list_all (\<lambda>c. fst c div 1000 < exp_claim tok) calls"
  shows "rotate_again env tok calls s
           = replicate (length calls) (failure ''Token reuse detected. Please login again.'' True)"
  using assms(2,3)
proof (induction calls arbitrary: s)
  case Nil
  show ?case by simp
next
  case (Cons c calls)
  from Cons.prems(1) obtain d where d: "findOne (hash_token tok) s = Some d" "is_revoked d"
    by blast
  have v: "verify_refresh_token env (fst c) tok = Inr decoded"
    using assms(1) Cons.prems(2) by (auto intro: verify_refresh_token_later)
  let ?s' = "updateMany (\<lambda>x. family_id x = claim_family_id decoded) s"
  have run: "rotate_refresh_token env (fst c) (snd c) tok s
               = (failure ''Token reuse detected. Please login again.'' True, ?s')"
    using v d by (simp add: rotate_refresh_token_def)
  have "findOne (hash_token tok) ?s' = Some (d\<lparr>is_revoked := True\<rparr>)"
    using d by (simp add: findOne_updateMany)
  then have "\<exists>d. findOne (hash_token tok) ?s' = Some d \<and> is_revoked d" by simp
  moreover have "list_all (\<lambda>c. fst c div 1000 < exp_claim tok) calls"
    using Cons.prems(2) by simp
  ultimately have "rotate_again env tok calls ?s'
      = replicate (length calls) (failure ''Token reuse detected. Please login again.'' True)"
    by (rule Cons.IH)
  with run show ?case by simp
qed

text \<open>
  Claim C1, as the code has it. Once \<open>rotate_refresh_token\<close> has succeeded on a token,
  presenting the same token again, any number of times, each call against the store the
  call before left, returns the reuse failure every time, as long as the clock of the call
  is before the \<^verbatim>\<open>exp\<close> of the token itself: verification comes first, and a token past
  its own expiry is rejected there.
\<close>

theorem redeemed_token_is_reuse_until_jwt_expiry:
  assumes "success (fst (rotate_refresh_token env now uuidv4 tok s))"
      and "list_all (\<lambda>c. fst c div 1000 < exp_claim tok) calls"
  shows "rotate_again env tok calls (snd (rotate_refresh_token env now uuidv4 tok s))
           = replicate (length calls)
               \<lparr> success = False, tokens = None,
                 error = Some ''Token reuse detected. Please login again.'',
                 should_logout = Some True \<rparr>"
proof -
  from rotate_success_consumes[OF assms(1)] obtain decoded where
    v: "verify_refresh_token env now tok = Inr decoded" and
    c: "\<exists>d. findOne (hash_token tok) (snd (rotate_refresh_token env now uuidv4 tok s)) = Some d
            \<and> is_revoked d"
    by blast
  show ?thesis
    using rotate_again_consumed[OF v c assms(2)] by (simp add: failure_def)
qed

theorem redeemed_token_is_reuse_until_jwt_expiry_witness:
  "success (fst (rotate_refresh_token default_env 1000 ''uuid-2'' login_token login_store))
   \<and> list_all (\<lambda>c. fst c div 1000 < exp_claim login_token)
        [(2000, ''uuid-3''), (3000, ''uuid-4''), (604799999, ''uuid-5'')]
   \<and> rotate_again default_env login_token
        [(2000, ''uuid-3''), (3000, ''uuid-4''), (604799999, ''uuid-5'')] rotated_store
       = [\<lparr> success = False, tokens = None,
             error = Some ''Token reuse detected. Please login again.'',
             should_logout = Some True \<rparr>,
          \<lparr> success = False, tokens = None,
             error = Some ''Token reuse detected. Please login again.'',
             should_logout = Some True \<rparr>,
          \<lparr> success = False, tokens = None,
             error = Some ''Token reuse detected. Please login again.'',
             should_logout = Some True \<rparr>]"
proof -
  have ok: "success (fst (rotate_refresh_token default_env 1000 ''uuid-2'' login_token login_store))"
    by (simp add: login_rotated)
  have times: "list_all (\<lambda>c. fst c div 1000 < exp_claim login_token)
        [(2000, ''uuid-3''), (3000, ''uuid-4''), (604799999, ''uuid-5'')]"
    by (simp add: login_token_def)
  show ?thesis
    using redeemed_token_is_reuse_until_jwt_expiry [OF ok times] ok times
    by (simp add: login_rotated numeral_3_eq_3)
qed

text \<open>
  Where the claim as written fails: \<open>login_token\<close> is rotated with success at clock 1000;
  presented again eight days later (clock 691200000, past its \<^verbatim>\<open>exp\<close> of seven days)
  against the store that rotation left, the answer is the expiry failure of the
  verification, with \<open>should_logout\<close> false, and not the reuse failure.
\<close>

theorem redeemed_token_after_jwt_expiry:
  "success (fst (rotate_refresh_token default_env 1000 ''uuid-2'' login_token login_store))
   \<and> rotate_refresh_token default_env 691200000 ''uuid-3'' login_token
        (snd (rotate_refresh_token default_env 1000 ''uuid-2'' login_token login_store))
       = (\<lparr> success = False, tokens = None, error = Some ''Refresh token expired'',
            should_logout = Some False \<rparr>, rotated_store)"
  by (simp add: login_rotated)
     (simp add: rotate_refresh_token_def verify_refresh_token_def jwt_verify_def login_token_def
        rotate_catch_def failure_def)


section \<open>Issued pairs verify\<close>

lemma generate_token_pair_tokens:
  assumes "generate_token_pair env now uuidv4 uid dev_arg fam_arg s = Inr (pair, s')"
  shows "\<exists>e1 e2 at.
           access_token pair = Jwt (JWT_SECRET env) (IAccessTokenPayload uid) (now div 1000) e1
         \<and> refresh_token pair = Jwt (JWT_REFRESH_SECRET env)
               (IRefreshTokenPayload uid
                  (case fam_arg of None \<Rightarrow> uuidv4 | Some f \<Rightarrow> if f = [] then uuidv4 else f)
                  (case dev_arg of None \<Rightarrow> web | Some d \<Rightarrow> d))
               (now div 1000) e2
         \<and> s' = s @ [\<lparr> user_id = uid, token_hash = hash_token (refresh_token pair),
                        family_id = (case fam_arg of None \<Rightarrow> uuidv4
                                     | Some f \<Rightarrow> if f = [] then uuidv4 else f),
                        device_type = (case dev_arg of None \<Rightarrow> web | Some d \<Rightarrow> d),
                        expires_at = at, created_at = now, is_revoked = False \<rparr>]"
  using assms
  by (auto simp: generate_token_pair_def generate_token_pair_try_def jwt_sign_def Let_def
           split: sum.splits option.splits dest!: create_Inr)

text \<open>
  Under the default configuration a pair is not expired at the clock of its issue: the
  access token lives 900 seconds, the refresh token seven days, ninety on a mobile device.
\<close>

lemma issued_pair_unexpired_at_issue:
  assumes "generate_token_pair default_env now uuidv4 uid dev_arg fam_arg s = Inr (pair, s')"
  shows "exp_claim (access_token pair) = now div 1000 + 900
       \<and> exp_claim (refresh_token pair)
           = now div 1000 + (if dev_arg = Some mobile then 7776000 else 604800)"
  using assms
  by (auto simp: issue_defs env_simps
           split: sum.splits option.splits if_splits e_device_type.splits)

text \<open>
  Claim C7. For every user and device type (and every configuration, clock, family
  argument and store): when \<open>generate_token_pair\<close> returns a pair, then at any clock at
  which the two tokens have not yet expired, \<open>verify_access_token\<close> accepts the access
  token and yields the user with type \<^verbatim>\<open>access\<close>, and \<open>verify_refresh_token\<close> accepts the
  refresh token and yields the user, the device type and the family of the pair (the
  family given, or else the fresh one; it is also the family of the record written) with
  type \<^verbatim>\<open>refresh\<close>.
\<close>

theorem issued_pair_round_trips:
  assumes "generate_token_pair env now uuidv4 uid dev_arg fam_arg s = Inr (pair, s')"
      and "now' div 1000 < exp_claim (access_token pair)"
      and "now' div 1000 < exp_claim (refresh_token pair)"
  shows "verify_access_token env now' (access_token pair) = Inr (IAccessTokenPayload uid)
       \<and> claim_type (IAccessTokenPayload uid) = ''access''
       \<and> verify_refresh_token env now' (refresh_token pair)
           = Inr (IRefreshTokenPayload uid (family_id (last s'))
                    (case dev_arg of None \<Rightarrow> web | Some d \<Rightarrow> d))
       \<and> claim_type (IRefreshTokenPayload uid (family_id (last s'))
                    (case dev_arg of None \<Rightarrow> web | Some d \<Rightarrow> d)) = ''refresh''
       \<and> family_id (last s')
           = (case fam_arg of None \<Rightarrow> uuidv4 | Some f \<Rightarrow> if f = [] then uuidv4 else f)
       \<and> token_hash (last s') = hash_token (refresh_token pair)"
proof -
  obtain e1 e2 at where
    a: "access_token pair = Jwt (JWT_SECRET env) (IAccessTokenPayload uid) (now div 1000) e1" and
    r: "refresh_token pair = Jwt (JWT_REFRESH_SECRET env)
               (IRefreshTokenPayload uid
                  (case fam_arg of None \<Rightarrow> uuidv4 | Some f \<Rightarrow> if f = [] then uuidv4 else f)
                  (case dev_arg of None \<Rightarrow> web | Some d \<Rightarrow> d))
               (now div 1000) e2" and
    s': "s' = s @ [\<lparr> user_id = uid, token_hash = hash_token (refresh_token pair),
                        family_id = (case fam_arg of None \<Rightarrow> uuidv4
                                     | Some f \<Rightarrow> if f = [] then uuidv4 else f),
                        device_type = (case dev_arg of None \<Rightarrow> web | Some d \<Rightarrow> d),
                        expires_at = at, created_at = now, is_revoked = False \<rparr>]"
    using generate_token_pair_tokens[OF assms(1)] by blast
  have va: "verify_access_token env now' (access_token pair) = Inr (IAccessTokenPayload uid)"
    using assms(2) by (simp add: a verify_access_token_def jwt_verify_def)
  have vr: "verify_refresh_token env now' (refresh_token pair)
           = Inr (IRefreshTokenPayload uid (family_id (last s'))
                    (case dev_arg of None \<Rightarrow> web | Some d \<Rightarrow> d))"
    using assms(3) by (simp add: r s' verify_refresh_token_def jwt_verify_def)
  show ?thesis
    using va vr by (simp add: s')
qed

theorem issued_pair_round_trips_witness:
  "generate_token_pair default_env 0 ''family-1'' ''user-1'' None None []
     = Inr (\<lparr> access_token = login_access, refresh_token = login_token,
              access_expires_in = ''15m'', refresh_expires_in = ''7d'' \<rparr>, login_store)
   \<and> (0::int) div 1000 < exp_claim login_access
   \<and> (0::int) div 1000 < exp_claim login_token
   \<and> verify_access_token default_env 0 login_access = Inr (IAccessTokenPayload ''user-1'')
   \<and> verify_refresh_token default_env 0 login_token
       = Inr (IRefreshTokenPayload ''user-1'' ''family-1'' web)"
proof -
  have t1: "(0::int) div 1000 < exp_claim login_access" by (simp add: login_access_def)
  have t2: "(0::int) div 1000 < exp_claim login_token" by (simp add: login_token_def)
  have "verify_access_token default_env 0 login_access = Inr (IAccessTokenPayload ''user-1'')
      \<and> verify_refresh_token default_env 0 login_token
           = Inr (IRefreshTokenPayload ''user-1'' (family_id (last login_store)) web)"
    using issued_pair_round_trips [OF login_issued, of 0] t1 t2 by simp
  then show ?thesis
    using login_issued t1 t2 by (simp add: login_store_def login_record_def)
qed


section \<open>The Auth Gate on an expired cookie\<close>

lemma verify_access_token_expired:
  assumes "expires \<le> now div 1000"
  shows "verify_access_token env now (Jwt (JWT_SECRET env) pl issued expires)
           = Inl (Error ''Access token expired'')"
  using assms by (simp add: verify_access_token_def jwt_verify_def)

lemma authenticate_catch_expired:
  "authenticate_catch (Error ''Access token expired'')
     = Responded 401 ''Token expirado''
         (''El token de acceso ha expirado. Refresc'' @ a_acute @ '' tu sesi'' @ o_acute @ ''n.'')"
  by (simp add: authenticate_catch_def)

text \<open>
  Claim C8. A request whose cookie \<^verbatim>\<open>access_token\<close> holds a token of the service that
  has expired, and that has no \<^verbatim>\<open>Authorization\<close> header, is answered with status 401 and
  the expired message (\<^verbatim>\<open>Token expirado\<close>), which is neither the answer for a missing token
  nor the answer for an invalid one.
\<close>

theorem expired_cookie_is_rejected_as_expired:
  assumes "cookies req = Some jar"
      and "jar ''access_token'' = Some (Jwt (JWT_SECRET env) pl issued expires)"
      and "expires \<le> now div 1000"
      and "authorization req = None"
  shows "authenticate_token env now findById get_player_profile_by_user_id req
           = Responded 401 ''Token expirado''
               (''El token de acceso ha expirado. Refresc'' @ a_acute @ '' tu sesi'' @ o_acute @ ''n.'')
       \<and> authenticate_token env now findById get_player_profile_by_user_id req
           \<noteq> Responded 401 ''Token de acceso requerido''
               (''Debes incluir un token de autorizaci'' @ o_acute @ ''n (cookie o header)'')
       \<and> authenticate_token env now findById get_player_profile_by_user_id req
           \<noteq> Responded 401 (''Token inv'' @ a_acute @ ''lido'')
               (''El token de acceso no es v'' @ a_acute @ ''lido'')"
proof -
  have tok: "token_of_request req = Some (Jwt (JWT_SECRET env) pl issued expires)"
    using assms(1,2) by (simp add: token_of_request_def)
  have "authenticate_token env now findById get_player_profile_by_user_id req
          = authenticate_catch (Error ''Access token expired'')"
    using assms(3) by (simp add: authenticate_token_def tok verify_access_token_expired)
  then show ?thesis
    by (simp add: authenticate_catch_expired)
qed

theorem expired_cookie_is_rejected_as_expired_witness:
  "cookies expired_cookie_request = Some [''access_token'' \<mapsto> login_access]
   \<and> authorization expired_cookie_request = None
   \<and> exp_claim login_access \<le> 900000 div 1000
   \<and> authenticate_token default_env 900000 (\<lambda>k. None) (\<lambda>k. (None :: unit option))
        expired_cookie_request
       = Responded 401 ''Token expirado''
           (''El token de acceso ha expirado. Refresc'' @ a_acute @ '' tu sesi'' @ o_acute @ ''n.'')"
proof -
  have c: "cookies expired_cookie_request = Some [''access_token'' \<mapsto> login_access]"
    by (simp add: expired_cookie_request_def)
  have j: "[''access_token'' \<mapsto> login_access] ''access_token''
             = Some (Jwt (JWT_SECRET default_env) (IAccessTokenPayload ''user-1'') 0 900)"
    by (simp add: login_access_def)
  have e: "(900::int) \<le> 900000 div 1000" by simp
  have a: "authorization expired_cookie_request = None"
    by (simp add: expired_cookie_request_def)
  show ?thesis
    using expired_cookie_is_rejected_as_expired
            [OF c j e a, of "\<lambda>k. None" "\<lambda>k. (None :: unit option)"] c a
    by (simp add: login_access_def)
qed


section \<open>The Refresh Coordinator when the wait fails\<close>



















end
